theory Spec2Isabelle
  imports Complex_Main "HOL-Library.AList"
begin

section \<open>Mock UV-Vis spectrometer simulator (mock\_uvvis\_controller.py)\<close>

text \<open>
  A shallow embedding of the class \<open>MockUVVisController\<close> and of the dataclass
  \<open>MockSpectrumData\<close>.

  Conventions of the embedding.
  \<^item> A numpy \<open>float64\<close> is a \<open>real\<close>: rounding, overflow and NaN are not modelled.
  \<^item> Python objects that are shared by reference (numpy arrays and dicts) live in a
    store, a list of objects indexed by address; allocation appends, so a new address is
    the length of the store and is different from every address in use.
  \<^item> \<open>np.random.normal\<close> and \<open>datetime.now\<close> read the world: a stream of standard
    normal draws with a position, and a clock.
  \<^item> An exception is the \<open>Inl\<close> branch of a sum. The \<open>print\<close> calls write to the
    console only and are left out (the \<open>np.max\<close> in the log line of
    \<open>measure_spectrum\<close> is taken over the 2048 intensities and cannot fail).
  \<^item> A call that raises leaves nothing behind that a later call could observe, so a
    failed call returns the error alone.
\<close>

subsection \<open>Values, objects and the store\<close>

type_synonym addr = nat

datatype pyval = PyNone | PyBool bool | PyInt int | PyStr string | PyRef addr

type_synonym pydict = "(string \<times> pyval) list"

datatype pyobj = Dict pydict | NDArray "real list" | NDArray2 "real list list"

datatype error = RuntimeError string | UnboundLocalError string | AttributeError string

record world =
  heap :: "pyobj list"
  std_normal :: "nat \<Rightarrow> nat \<Rightarrow> real"
  draws :: nat
  now :: nat

definition lookup :: "pyobj list \<Rightarrow> addr \<Rightarrow> pyobj option" where
  "lookup h a = (if a < length h then Some (h ! a) else None)"

definition alloc :: "pyobj \<Rightarrow> world \<Rightarrow> addr \<times> world" where
  "alloc ob w = (length (heap w), w\<lparr>heap := heap w @ [ob]\<rparr>)"

definition the_array :: "pyobj list \<Rightarrow> addr \<Rightarrow> real list" where
  "the_array h a = (case lookup h a of Some (NDArray xs) \<Rightarrow> xs | _ \<Rightarrow> [])"

text \<open>
  \<open>d.update(other)\<close>: the items of \<open>other\<close> are stored in order; a key already in
  \<open>d\<close> keeps its position and takes the new value, a new key goes to the end.
\<close>

definition dict_update :: "pydict \<Rightarrow> pydict \<Rightarrow> pydict" where
  "dict_update d other = fold (\<lambda>(k, v). AList.update k v) other d"

subsection \<open>The numpy functions the simulator calls\<close>

text \<open>
  \<open>np.linspace(start, stop, num)\<close> with the default \<open>endpoint=True\<close>:
  \<open>step = (stop - start) / (num - 1)\<close>, \<open>y = arange(0, num) * step + start\<close>, and
  for \<open>num > 1\<close> the last element is overwritten with \<open>stop\<close>.
\<close>

definition np_linspace :: "real \<Rightarrow> real \<Rightarrow> nat \<Rightarrow> real list" where
  "np_linspace start stop num =
     (let step = (stop - start) / real (num - 1);
          y = map (\<lambda>i. real i * step + start) [0..<num]
      in if num > 1 then y[num - 1 := stop] else y)"

text \<open>
  \<open>np.random.normal(loc, scale, size)\<close>: \<open>size\<close> values \<open>loc + scale * z\<close>, the
  \<open>z\<close> being the next standard normal draws of the global generator.
\<close>

definition random_normal :: "real \<Rightarrow> real \<Rightarrow> nat \<Rightarrow> world \<Rightarrow> real list \<times> world" where
  "random_normal loc scale sz w =
     (map (\<lambda>i. loc + scale * std_normal w (draws w) i) [0..<sz],
      w\<lparr>draws := draws w + 1\<rparr>)"

text \<open>
  \<open>np.mean(rows, axis=0)\<close> and \<open>np.std(rows, axis=0)\<close> on a list of equally long
  1-D arrays: column by column, the standard deviation with \<open>ddof = 0\<close>. On an empty
  list numpy returns NaN with a warning; the simulator never uses that value.
\<close>

definition column :: "real list list \<Rightarrow> nat \<Rightarrow> real list" where
  "column rows j = map (\<lambda>r. r ! j) rows"

definition mean :: "real list \<Rightarrow> real" where
  "mean xs = sum_list xs / real (length xs)"

definition np_mean_axis0 :: "real list list \<Rightarrow> real list" where
  "np_mean_axis0 rows =
     (case rows of [] \<Rightarrow> []
      | r # _ \<Rightarrow> map (\<lambda>j. mean (column rows j)) [0..<length r])"

definition np_std_axis0 :: "real list list \<Rightarrow> real list" where
  "np_std_axis0 rows =
     (case rows of [] \<Rightarrow> []
      | r # _ \<Rightarrow>
          map (\<lambda>j. sqrt (mean (map (\<lambda>x. (x - mean (column rows j))\<^sup>2) (column rows j))))
              [0..<length r])"

subsection \<open>The dataclass and the controller\<close>

record MockSpectrumData =
  wavelengths :: addr
  intensities :: addr
  timestamp :: nat
  integration_time_us :: int
  metadata :: addr

record MockUVVisController =
  serial_number :: "string option"
  is_connected :: bool
  default_integration_time :: int
  wavelengths :: addr

text \<open>\<open>__init__\<close>: the instance starts disconnected and owns a new wavelength array.\<close>

definition init :: "string option \<Rightarrow> world \<Rightarrow> MockUVVisController \<times> world" where
  "init serial w =
     (let (a, w') = alloc (NDArray (np_linspace 200 1100 2048)) w
      in (\<lparr>serial_number = serial, is_connected = False,
           default_integration_time = 100000, wavelengths = a\<rparr>, w'))"

definition connect :: "MockUVVisController \<Rightarrow> bool \<times> MockUVVisController" where
  "connect self = (True, self\<lparr>is_connected := True\<rparr>)"

definition disconnect :: "MockUVVisController \<Rightarrow> MockUVVisController" where
  "disconnect self = self\<lparr>is_connected := False\<rparr>"

definition get_wavelengths :: "MockUVVisController \<Rightarrow> error + addr" where
  "get_wavelengths self =
     (if \<not> is_connected self then Inl (RuntimeError ''Spectrometer not connected'')
      else Inr (wavelengths self))"

text \<open>
  \<open>_generate_mock_spectrum\<close>. The arithmetic on arrays is elementwise; every array
  here has the length of the wavelength axis.
\<close>

definition base_curve :: "real list \<Rightarrow> real list" where
  "base_curve ws = map (\<lambda>x. 40000 + 10000 * exp (- ((x - 500)\<^sup>2) / 50000)) ws"

definition absorption1 :: "real list \<Rightarrow> real list" where
  "absorption1 ws = map (\<lambda>x. - 15000 * exp (- ((x - 450)\<^sup>2) / 500)) ws"

definition absorption2 :: "real list \<Rightarrow> real list" where
  "absorption2 ws = map (\<lambda>x. - 8000 * exp (- ((x - 650)\<^sup>2) / 800)) ws"

definition arr_add :: "real list \<Rightarrow> real list \<Rightarrow> real list" where
  "arr_add xs ys = map2 (+) xs ys"

definition generate_mock_spectrum ::
  "MockUVVisController \<Rightarrow> string \<Rightarrow> world \<Rightarrow> real list \<times> world" where
  "generate_mock_spectrum self spectrum_type w =
     (let ws = the_array (heap w) (wavelengths self) in
      if spectrum_type = ''reference'' then
        (let base = base_curve ws;
             (noise, w') = random_normal 0 500 (length ws) w
         in (arr_add base noise, w'))
      else
        (let base = base_curve ws;
             (noise, w') = random_normal 0 500 (length ws) w
         in (arr_add (arr_add (arr_add base (absorption1 ws)) (absorption2 ws)) noise, w')))"

text \<open>
  \<open>measure_spectrum\<close>. The caller's \<open>metadata\<close> is a reference to a dict, or
  \<open>None\<close>, for which a new empty dict is made; \<open>metadata.update\<close> then writes into
  that object in place. (On an object that is not a dict the method does not exist.)
  The parameters \<open>integration_time_us\<close> and \<open>metadata\<close> are written
  \<open>integration_time_arg\<close> and \<open>metadata_arg\<close>, the names being those of the
  dataclass's fields.
\<close>

definition py_opt_str :: "string option \<Rightarrow> pyval" where
  "py_opt_str s = (case s of None \<Rightarrow> PyNone | Some x \<Rightarrow> PyStr x)"

definition measure_spectrum ::
  "MockUVVisController \<Rightarrow> int option \<Rightarrow> bool \<Rightarrow> bool \<Rightarrow> addr option \<Rightarrow> string \<Rightarrow> world
   \<Rightarrow> error + (MockSpectrumData \<times> world)" where
  "measure_spectrum self integration_time_arg correct_dark_counts correct_nonlinearity
       metadata_arg spectrum_type w =
     (if \<not> is_connected self then Inl (RuntimeError ''Spectrometer not connected'')
      else
        let t = (case integration_time_arg of
                   None \<Rightarrow> default_integration_time self | Some t \<Rightarrow> t);
            (spectrum, w1) = generate_mock_spectrum self spectrum_type w;
            (a_int, w2) = alloc (NDArray (map (\<lambda>x. x * (real_of_int t / 100000)) spectrum)) w1;
            (md, w3) = (case metadata_arg of None \<Rightarrow> alloc (Dict []) w2 | Some a \<Rightarrow> (a, w2))
        in case lookup (heap w3) md of
             Some (Dict d) \<Rightarrow>
               (let w4 = w3\<lparr>heap := (heap w3)[md := Dict (dict_update d
                            [(''serial_number'', py_opt_str (serial_number self)),
                             (''dark_corrected'', PyBool correct_dark_counts),
                             (''nonlinearity_corrected'', PyBool correct_nonlinearity),
                             (''mock'', PyBool True)])]\<rparr>;
                    (a_wl, w5) = alloc (NDArray (the_array (heap w4) (wavelengths self))) w4
                in Inr (\<lparr>MockSpectrumData.wavelengths = a_wl, intensities = a_int,
                         timestamp = now w5, integration_time_us = t, metadata = md\<rparr>, w5))
           | _ \<Rightarrow> Inl (AttributeError ''update''))"

text \<open>
  \<open>measure_multiple_spectra\<close>. The \<open>for\<close> loop over \<open>range(n_measurements)\<close> runs
  \<open>nat n_measurements\<close> times (not at all for a count of zero or less); it appends to
  \<open>measurements\<close> and rebinds \<open>data\<close>, which is unbound (\<open>None\<close> here) until the
  first iteration. After the loop, \<open>data.integration_time_us\<close> is read while the
  arguments of the result are evaluated, after the two statistics and the copy of the axis.
\<close>

fun measure_loop ::
  "MockUVVisController \<Rightarrow> int option \<Rightarrow> string \<Rightarrow> nat \<Rightarrow> addr list \<Rightarrow> MockSpectrumData option
   \<Rightarrow> world \<Rightarrow> error + (addr list \<times> MockSpectrumData option \<times> world)" where
  "measure_loop self integration_time_arg spectrum_type 0 measurements data w =
     Inr (measurements, data, w)"
| "measure_loop self integration_time_arg spectrum_type (Suc k) measurements data w =
     (case measure_spectrum self integration_time_arg False False None spectrum_type w of
        Inl e \<Rightarrow> Inl e
      | Inr (d, w') \<Rightarrow>
          measure_loop self integration_time_arg spectrum_type k
            (measurements @ [intensities d]) (Some d) w')"

definition measure_multiple_spectra ::
  "MockUVVisController \<Rightarrow> int \<Rightarrow> int option \<Rightarrow> bool \<Rightarrow> string \<Rightarrow> world
   \<Rightarrow> error + (MockSpectrumData \<times> world)" where
  "measure_multiple_spectra self n_measurements integration_time_arg average spectrum_type w =
     (case measure_loop self integration_time_arg spectrum_type (nat n_measurements) [] None w of
        Inl e \<Rightarrow> Inl e
      | Inr (measurements, data, w1) \<Rightarrow>
          (let rows = map (the_array (heap w1)) measurements in
           if average then
             (let (avg_intensities, w2) = alloc (NDArray (np_mean_axis0 rows)) w1;
                  (std_intensities, w3) = alloc (NDArray (np_std_axis0 rows)) w2;
                  (a_wl, w4) = alloc (NDArray (the_array (heap w3) (wavelengths self))) w3
              in case data of
                   None \<Rightarrow> Inl (UnboundLocalError ''data'')
                 | Some d \<Rightarrow>
                     (let (md, w5) = alloc (Dict
                            [(''n_measurements'', PyInt n_measurements),
                             (''std_intensities'', PyRef std_intensities),
                             (''averaged'', PyBool True),
                             (''mock'', PyBool True)]) w4
                      in Inr (\<lparr>MockSpectrumData.wavelengths = a_wl,
                               intensities = avg_intensities, timestamp = now w5,
                               integration_time_us = integration_time_us d,
                               metadata = md\<rparr>, w5)))
           else
             (let (stacked_intensities, w2) = alloc (NDArray2 rows) w1;
                  (a_wl, w3) = alloc (NDArray (the_array (heap w2) (wavelengths self))) w2
              in case data of
                   None \<Rightarrow> Inl (UnboundLocalError ''data'')
                 | Some d \<Rightarrow>
                     (let (md, w4) = alloc (Dict
                            [(''n_measurements'', PyInt n_measurements),
                             (''averaged'', PyBool False),
                             (''mock'', PyBool True)]) w3
                      in Inr (\<lparr>MockSpectrumData.wavelengths = a_wl,
                               intensities = stacked_intensities, timestamp = now w4,
                               integration_time_us = integration_time_us d,
                               metadata = md\<rparr>, w4)))))"

text \<open>\<open>optimize_integration_time\<close>: no search, the constant is returned.\<close>

definition optimize_integration_time :: "MockUVVisController \<Rightarrow> real \<Rightarrow> int \<Rightarrow> int" where
  "optimize_integration_time self target_counts max_iterations =
     (let optimal = 120000 in optimal)"

subsection \<open>Notions used in the statements\<close>

text \<open>
  The instance invariant: the attribute \<open>wavelengths\<close> refers to the array that
  \<open>__init__\<close> made. \<open>__init__\<close> establishes it and every method keeps it (lemmas
  \<open>init_instance_ok\<close> to \<open>measure_multiple_spectra_instance_ok\<close> below).
\<close>

definition instance_ok :: "MockUVVisController \<Rightarrow> world \<Rightarrow> bool" where
  "instance_ok self w =
     (lookup (heap w) (wavelengths self) = Some (NDArray (np_linspace 200 1100 2048)))"

text \<open>The integration time a measurement uses: the argument, or the stored default.\<close>

definition requested_time :: "MockUVVisController \<Rightarrow> int option \<Rightarrow> int" where
  "requested_time self it = (case it of None \<Rightarrow> default_integration_time self | Some t \<Rightarrow> t)"

text \<open>The dict literal that \<open>measure_spectrum\<close> passes to \<open>metadata.update\<close>.\<close>

definition fixed_keys :: "MockUVVisController \<Rightarrow> bool \<Rightarrow> bool \<Rightarrow> pydict" where
  "fixed_keys self dk nl =
     [(''serial_number'', py_opt_str (serial_number self)),
      (''dark_corrected'', PyBool dk),
      (''nonlinearity_corrected'', PyBool nl),
      (''mock'', PyBool True)]"

text \<open>
  The \<open>i\<close>-th sub-measurement of a series started in world \<open>w\<close>: by then \<open>i\<close> draws
  have been taken from the generator. \<open>sub_intensities\<close> is the intensity array that
  \<open>measure_spectrum\<close> computes there, \<open>sub_block\<close> the three objects the call
  allocates and \<open>sub_data\<close> the object it returns (lemma \<open>measure_spectrum_None\<close>).
\<close>

definition sub_intensities ::
  "MockUVVisController \<Rightarrow> int option \<Rightarrow> string \<Rightarrow> world \<Rightarrow> nat \<Rightarrow> real list" where
  "sub_intensities self it ty w i =
     map (\<lambda>x. x * (real_of_int (requested_time self it) / 100000))
       (fst (generate_mock_spectrum self ty (w\<lparr>draws := draws w + i\<rparr>)))"

definition sub_block ::
  "MockUVVisController \<Rightarrow> int option \<Rightarrow> string \<Rightarrow> world \<Rightarrow> nat \<Rightarrow> pyobj list" where
  "sub_block self it ty w i =
     [NDArray (sub_intensities self it ty w i), Dict (fixed_keys self False False),
      NDArray (the_array (heap w) (wavelengths self))]"

definition sub_data :: "MockUVVisController \<Rightarrow> int option \<Rightarrow> world \<Rightarrow> nat \<Rightarrow> MockSpectrumData" where
  "sub_data self it w i =
     \<lparr>MockSpectrumData.wavelengths = length (heap w) + 3 * i + 2,
      intensities = length (heap w) + 3 * i, timestamp = now w,
      integration_time_us = requested_time self it,
      metadata = length (heap w) + 3 * i + 1\<rparr>"

text \<open>
  An example run, as in the script's \<open>__main__\<close>: \<open>MockUVVisController()\<close> in an
  empty world gives the disconnected instance \<open>c0\<close> in world \<open>w1\<close>; \<open>connect()\<close>
  gives \<open>c1\<close>.
\<close>

definition w0 :: world where
  "w0 = \<lparr>heap = [], std_normal = (\<lambda>k i. 0), draws = 0, now = 0\<rparr>"

definition c0 :: MockUVVisController where
  "c0 = fst (init (Some ''MOCK-001'') w0)"

definition w1 :: world where
  "w1 = snd (init (Some ''MOCK-001'') w0)"

definition c1 :: MockUVVisController where
  "c1 = snd (connect c0)"

text \<open>
  A well-typed \<open>metadata\<close> argument: \<open>None\<close>, or a reference to a dict.
\<close>

definition metadata_ok :: "world \<Rightarrow> addr option \<Rightarrow> bool" where
  "metadata_ok w md =
     (case md of None \<Rightarrow> True
      | Some a \<Rightarrow> (case lookup (heap w) a of Some (Dict m) \<Rightarrow> True | _ \<Rightarrow> False))"

text \<open>
  The store after the \<open>k\<close> sub-measurements of a series started in world \<open>w\<close>.
\<close>

definition series_heap ::
  "MockUVVisController \<Rightarrow> int option \<Rightarrow> string \<Rightarrow> world \<Rightarrow> nat \<Rightarrow> pyobj list" where
  "series_heap self it ty w k = heap w @ concat (map (sub_block self it ty w) [0..<k])"


text \<open>
  The example run continued: the caller makes a dict of its own (at address 1, world
  \<open>w2\<close>) and passes it as \<open>metadata\<close> to \<open>measure_spectrum\<close>, asking for dark-count
  correction; \<open>d3\<close> is the object returned and \<open>w3\<close> the world after the call (lemma
  \<open>measure_c1_w2\<close>).
\<close>

definition w2 :: world where
  "w2 = snd (alloc (Dict [(''run'', PyInt 7), (''mock'', PyBool False)]) w1)"

definition d3 :: MockSpectrumData where
  "d3 = \<lparr>MockSpectrumData.wavelengths = 3, intensities = 2, timestamp = 0,
         integration_time_us = 100000, metadata = 1\<rparr>"

definition w3 :: world where
  "w3 = w2\<lparr>heap :=
            [NDArray (np_linspace 200 1100 2048),
             Dict [(''run'', PyInt 7), (''mock'', PyBool True),
                   (''serial_number'', PyStr ''MOCK-001''), (''dark_corrected'', PyBool True),
                   (''nonlinearity_corrected'', PyBool False)],
             NDArray (sub_intensities c1 None ''sample'' w2 0),
             NDArray (np_linspace 200 1100 2048)],
          draws := 1\<rparr>"

text \<open>
  The caller passes the same dict once more, now without dark-count correction: \<open>d4\<close> is
  the second object returned and \<open>w4\<close> the world after that call (lemma
  \<open>measure_c1_w3\<close>).
\<close>

definition d4 :: MockSpectrumData where
  "d4 = \<lparr>MockSpectrumData.wavelengths = 5, intensities = 4, timestamp = 0,
         integration_time_us = 100000, metadata = 1\<rparr>"

definition w4 :: world where
  "w4 = w3\<lparr>heap :=
            [NDArray (np_linspace 200 1100 2048),
             Dict [(''run'', PyInt 7), (''mock'', PyBool True),
                   (''serial_number'', PyStr ''MOCK-001''), (''dark_corrected'', PyBool False),
                   (''nonlinearity_corrected'', PyBool False)],
             NDArray (sub_intensities c1 None ''sample'' w2 0),
             NDArray (np_linspace 200 1100 2048),
             NDArray (sub_intensities c1 None ''sample'' w3 0),
             NDArray (np_linspace 200 1100 2048)],
          draws := 2\<rparr>"

text \<open>
  A world whose generator does not repeat itself: the \<open>k\<close>-th call of
  \<open>np.random.normal\<close> draws the value \<open>k\<close> at every point, so that the runs of a series
  differ.
\<close>

definition wn :: world where
  "wn = w1\<lparr>std_normal := (\<lambda>k i. real k)\<rparr>"


section \<open>Basic facts\<close>

lemma c0_simps:
  "is_connected c0 = False" "wavelengths c0 = 0" "serial_number c0 = Some ''MOCK-001''"
  "default_integration_time c0 = 100000"
  by (simp_all add: c0_def init_def alloc_def w0_def)

lemma c1_simps:
  "is_connected c1 = True" "wavelengths c1 = 0" "serial_number c1 = Some ''MOCK-001''"
  "default_integration_time c1 = 100000"
  by (simp_all add: c1_def connect_def c0_simps)

lemma w1_simps:
  "heap w1 = [NDArray (np_linspace 200 1100 2048)]" "draws w1 = 0" "now w1 = 0"
  "std_normal w1 = (\<lambda>k i. 0)"
  by (simp_all add: w1_def init_def alloc_def w0_def)

lemma lookup_append_old: "a < length h \<Longrightarrow> lookup (h @ xs) a = lookup h a"
  by (simp add: lookup_def nth_append)

lemma lookup_Some_less: "lookup h a = Some x \<Longrightarrow> a < length h"
  by (simp add: lookup_def split: if_splits)

lemma the_array_append_old: "a < length h \<Longrightarrow> the_array (h @ xs) a = the_array h a"
  by (simp add: the_array_def lookup_append_old)

lemma instance_ok_less: "instance_ok self w \<Longrightarrow> wavelengths self < length (heap w)"
  by (auto simp: instance_ok_def dest: lookup_Some_less)

lemma instance_ok_the_array:
  "instance_ok self w \<Longrightarrow> the_array (heap w) (wavelengths self) = np_linspace 200 1100 2048"
  by (simp add: instance_ok_def the_array_def)

lemma instance_ok_c0: "instance_ok c0 w1"
  by (simp add: instance_ok_def c0_simps w1_simps lookup_def)

lemma instance_ok_c1: "instance_ok c1 w1"
  by (simp add: instance_ok_def c1_simps w1_simps lookup_def)

lemma length_np_linspace: "length (np_linspace a b n) = n"
  by (simp add: np_linspace_def Let_def)

lemma generate_world:
  "snd (generate_mock_spectrum self ty w) = w\<lparr>draws := draws w + 1\<rparr>"
  by (simp add: generate_mock_spectrum_def Let_def random_normal_def)

lemma generate_length:
  "length (fst (generate_mock_spectrum self ty w)) =
   length (the_array (heap w) (wavelengths self))"
  by (simp add: generate_mock_spectrum_def Let_def random_normal_def arr_add_def
      base_curve_def absorption1_def absorption2_def)

lemma generate_fst_cong:
  "the_array (heap w) (wavelengths self) = the_array (heap w') (wavelengths self) \<Longrightarrow>
   std_normal w = std_normal w' \<Longrightarrow> draws w = draws w' \<Longrightarrow>
   fst (generate_mock_spectrum self ty w) = fst (generate_mock_spectrum self ty w')"
  by (simp add: generate_mock_spectrum_def Let_def random_normal_def)

subsection \<open>One measurement\<close>

lemma measure_spectrum_disconnected:
  "\<not> is_connected self \<Longrightarrow>
   measure_spectrum self it dk nl md ty w = Inl (RuntimeError ''Spectrometer not connected'')"
  by (simp add: measure_spectrum_def)

lemma measure_spectrum_connected_None:
  "is_connected self \<Longrightarrow> \<exists>d w'. measure_spectrum self it dk nl None ty w = Inr (d, w')"
  by (simp add: measure_spectrum_def Let_def split_beta alloc_def lookup_def nth_append)

lemma measure_spectrum_not_RuntimeError:
  "is_connected self \<Longrightarrow> measure_spectrum self it dk nl md ty w \<noteq> Inl (RuntimeError msg)"
  by (simp add: measure_spectrum_def Let_def split_beta split: option.splits pyobj.splits)

lemma measure_spectrum_None:
  assumes "is_connected self" "wavelengths self < length (heap w)"
  shows "measure_spectrum self it dk nl None ty w =
     Inr (\<lparr>MockSpectrumData.wavelengths = length (heap w) + 2, intensities = length (heap w),
           timestamp = now w, integration_time_us = requested_time self it,
           metadata = length (heap w) + 1\<rparr>,
          w\<lparr>heap := heap w @
              [NDArray (sub_intensities self it ty w 0), Dict (fixed_keys self dk nl),
               NDArray (the_array (heap w) (wavelengths self))],
            draws := draws w + 1\<rparr>)"
  using assms
  by (simp add: measure_spectrum_def Let_def split_beta alloc_def generate_world lookup_def
      nth_append dict_update_def fixed_keys_def the_array_def requested_time_def
      sub_intensities_def)

subsection \<open>The loop of a series\<close>

lemma measure_loop_connected:
  "is_connected self \<Longrightarrow>
   \<exists>ms' data' w'. measure_loop self it ty k ms data w = Inr (ms', data', w')"
proof (induction k arbitrary: ms data w)
  case 0
  then show ?case by simp
next
  case (Suc k)
  from measure_spectrum_connected_None [OF Suc.prems, of it False False ty w]
  obtain d w' where "measure_spectrum self it False False None ty w = Inr (d, w')" by blast
  with Suc.IH [OF Suc.prems] show ?case by simp
qed

lemma measure_multiple_not_RuntimeError:
  assumes "is_connected self"
  shows "measure_multiple_spectra self n it avg ty w \<noteq> Inl (RuntimeError msg)"
proof -
  from measure_loop_connected [OF assms, of it ty "nat n" "[]" None w]
  obtain ms d w' where "measure_loop self it ty (nat n) [] None w = Inr (ms, d, w')" by blast
  then show ?thesis
    by (simp add: measure_multiple_spectra_def Let_def split_beta split: option.splits)
qed

lemma measure_multiple_no_iteration:
  "n \<le> 0 \<Longrightarrow> measure_multiple_spectra self n it avg ty w = Inl (UnboundLocalError ''data'')"
  by (simp add: measure_multiple_spectra_def Let_def split_beta)

lemma sub_intensities_shift:
  assumes "wavelengths self < length (heap w)" "heap w' = heap w @ xs"
    "draws w' = Suc (draws w)" "std_normal w' = std_normal w"
  shows "sub_intensities self it ty w' i = sub_intensities self it ty w (Suc i)"
proof -
  have "fst (generate_mock_spectrum self ty (w'\<lparr>draws := draws w' + i\<rparr>)) =
        fst (generate_mock_spectrum self ty (w\<lparr>draws := draws w + Suc i\<rparr>))"
    by (rule generate_fst_cong) (simp_all add: assms the_array_append_old)
  then show ?thesis by (simp add: sub_intensities_def)
qed

lemma sub_block_shift:
  assumes "wavelengths self < length (heap w)" "heap w' = heap w @ xs"
    "draws w' = Suc (draws w)" "std_normal w' = std_normal w"
  shows "sub_block self it ty w' i = sub_block self it ty w (Suc i)"
  by (simp add: sub_block_def sub_intensities_shift [OF assms] assms the_array_append_old)

lemma measure_loop_closed:
  assumes "is_connected self" "wavelengths self < length (heap w)"
  shows "measure_loop self it ty k ms data w =
     Inr (ms @ map (\<lambda>i. length (heap w) + 3 * i) [0..<k],
          (if k = 0 then data else Some (sub_data self it w (k - 1))),
          w\<lparr>heap := heap w @ concat (map (sub_block self it ty w) [0..<k]),
            draws := draws w + k\<rparr>)"
  using assms(2)
proof (induction k arbitrary: ms data w)
  case 0
  then show ?case by simp
next
  case (Suc k)
  let ?w1 = "w\<lparr>heap := heap w @ sub_block self it ty w 0, draws := draws w + 1\<rparr>"
  have lt: "wavelengths self < length (heap ?w1)" using Suc.prems by simp
  have step: "measure_spectrum self it False False None ty w = Inr (sub_data self it w 0, ?w1)"
    by (simp add: measure_spectrum_None [OF assms(1) Suc.prems] sub_data_def sub_block_def)
  have upt: "[0..<Suc k] = 0 # map Suc [0..<k]"
    by (simp add: upt_conv_Cons map_Suc_upt del: upt_Suc)
  have blocks: "map (sub_block self it ty ?w1) [0..<k] = map (sub_block self it ty w \<circ> Suc) [0..<k]"
    by (simp add: sub_block_shift [OF Suc.prems, where xs = "sub_block self it ty w 0"])
  have len: "length (sub_block self it ty w 0) = 3" by (simp add: sub_block_def)
  have data: "(if k = 0 then Some (sub_data self it w 0) else Some (sub_data self it ?w1 (k - 1)))
      = Some (sub_data self it w k)"
    by (cases k) (simp_all add: sub_data_def len)
  show ?case
    apply (simp only: measure_loop.simps step sum.case prod.case Suc.IH [OF lt])
    apply (simp only: blocks upt data)
    apply (simp add: len sub_data_def del: upt_Suc)
    done
qed

subsection \<open>The wavelength axis\<close>

lemma np_linspace_nth:
  assumes "1 < n" "i < n"
  shows "np_linspace a b n ! i = a + real i * ((b - a) / real (n - 1))"
proof (cases "i = n - 1")
  case True
  have "real (n - 1) \<noteq> 0" using assms by simp
  then have "a + real (n - 1) * ((b - a) / real (n - 1)) = b" by simp
  with True assms show ?thesis by (simp add: np_linspace_def Let_def)
next
  case False
  with assms show ?thesis by (simp add: np_linspace_def Let_def add.commute)
qed

lemma axis_nth: "i < 2048 \<Longrightarrow> np_linspace 200 1100 2048 ! i = 200 + real i * (900 / 2047)"
  using np_linspace_nth [of 2048 i 200 1100] by simp

lemma axis_strict: "i < j \<Longrightarrow> j < 2048 \<Longrightarrow>
   np_linspace 200 1100 2048 ! i < np_linspace 200 1100 2048 ! j"
  by (simp add: axis_nth)

lemma axis_last: "last (np_linspace 200 1100 2048) = 1100"
proof -
  have "np_linspace 200 1100 2048 \<noteq> []" using length_np_linspace [of 200 1100 2048] by auto
  then have "last (np_linspace 200 1100 2048) = np_linspace 200 1100 2048 ! (2048 - 1)"
    by (simp add: last_conv_nth length_np_linspace)
  then show ?thesis by (simp add: axis_nth)
qed


subsection \<open>One measurement, in closed form\<close>

lemma init_instance_ok: "init serial w = (c, w') \<Longrightarrow> instance_ok c w'"
  by (auto simp: init_def alloc_def instance_ok_def lookup_def)

lemma connect_instance_ok: "instance_ok self w \<Longrightarrow> instance_ok (snd (connect self)) w"
  by (simp add: connect_def instance_ok_def)

lemma disconnect_instance_ok: "instance_ok self w \<Longrightarrow> instance_ok (disconnect self) w"
  by (simp add: disconnect_def instance_ok_def)

lemma the_array_update_other:
  "a \<noteq> b \<Longrightarrow> the_array (h[a := x]) b = the_array h b"
  by (simp add: the_array_def lookup_def)

lemma lookup_update_other:
  "a \<noteq> b \<Longrightarrow> lookup (h[a := x]) b = lookup h b"
  by (simp add: lookup_def)

lemma lookup_update_same:
  "a < length h \<Longrightarrow> lookup (h[a := x]) a = Some x"
  by (simp add: lookup_def)

lemma measure_spectrum_Some:
  assumes "is_connected self" "instance_ok self w" "lookup (heap w) a = Some (Dict m)"
  shows "measure_spectrum self it dk nl (Some a) ty w =
     Inr (\<lparr>MockSpectrumData.wavelengths = length (heap w) + 1, intensities = length (heap w),
           timestamp = now w, integration_time_us = requested_time self it, metadata = a\<rparr>,
          w\<lparr>heap := (heap w)[a := Dict (dict_update m (fixed_keys self dk nl))] @
              [NDArray (sub_intensities self it ty w 0), NDArray (np_linspace 200 1100 2048)],
            draws := draws w + 1\<rparr>)"
proof -
  have a: "a < length (heap w)" using assms(3) by (rule lookup_Some_less)
  have wl: "wavelengths self < length (heap w)" using assms(2) by (rule instance_ok_less)
  have ne: "a \<noteq> wavelengths self" using assms(2,3) by (auto simp: instance_ok_def)
  have m: "heap w ! a = Dict m" using assms(3) a by (simp add: lookup_def)
  have ax: "heap w ! wavelengths self = NDArray (np_linspace 200 1100 2048)"
    using assms(2) wl by (simp add: instance_ok_def lookup_def)
  show ?thesis
    using assms(1) a wl ne m ax
    by (simp add: measure_spectrum_def Let_def split_beta alloc_def generate_world lookup_def
      nth_append list_update_append1 fixed_keys_def the_array_def requested_time_def
      sub_intensities_def)
qed

lemma measure_spectrum_None_ok:
  assumes "is_connected self" "instance_ok self w"
  shows "measure_spectrum self it dk nl None ty w =
     Inr (\<lparr>MockSpectrumData.wavelengths = length (heap w) + 2, intensities = length (heap w),
           timestamp = now w, integration_time_us = requested_time self it,
           metadata = length (heap w) + 1\<rparr>,
          w\<lparr>heap := heap w @
              [NDArray (sub_intensities self it ty w 0), Dict (fixed_keys self dk nl),
               NDArray (np_linspace 200 1100 2048)],
            draws := draws w + 1\<rparr>)"
  by (simp add: measure_spectrum_None [OF assms(1) instance_ok_less [OF assms(2)]]
      instance_ok_the_array [OF assms(2)])

lemma measure_spectrum_instance_ok:
  assumes "instance_ok self w" "measure_spectrum self it dk nl md ty w = Inr (d, w')"
  shows "instance_ok self w'"
proof -
  have con: "is_connected self" using assms(2) by (auto simp: measure_spectrum_def split: if_splits)
  have wl: "wavelengths self < length (heap w)" using assms(1) by (rule instance_ok_less)
  show ?thesis
  proof (cases md)
    case None
    with assms(2) measure_spectrum_None_ok [OF con assms(1), of it dk nl ty]
    have "heap w' = heap w @ [NDArray (sub_intensities self it ty w 0), Dict (fixed_keys self dk nl),
               NDArray (np_linspace 200 1100 2048)]" by auto
    with assms(1) wl show ?thesis by (simp add: instance_ok_def lookup_append_old)
  next
    case (Some a)
    have "\<exists>m. lookup (heap w) a = Some (Dict m)"
    proof (rule ccontr)
      assume "\<not> ?thesis"
      then have "measure_spectrum self it dk nl (Some a) ty w = Inl (AttributeError ''update'')"
        using con
        by (auto simp add: measure_spectrum_def Let_def split_beta alloc_def generate_world lookup_def
            nth_append split: pyobj.splits)
      with assms(2) Some show False by simp
    qed
    then obtain m where m: "lookup (heap w) a = Some (Dict m)" by blast
    then have ne: "a \<noteq> wavelengths self" using assms(1) by (auto simp: instance_ok_def)
    from assms(2) Some measure_spectrum_Some [OF con assms(1) m, of it dk nl ty]
    have "heap w' = (heap w)[a := Dict (dict_update m (fixed_keys self dk nl))] @
              [NDArray (sub_intensities self it ty w 0), NDArray (np_linspace 200 1100 2048)]"
      by auto
    with assms(1) wl ne show ?thesis
      by (simp add: instance_ok_def lookup_append_old lookup_update_other)
  qed
qed

lemma metadata_okE:
  assumes "metadata_ok w md"
  obtains "md = None" | a m where "md = Some a" "lookup (heap w) a = Some (Dict m)"
  using assms by (auto simp: metadata_ok_def split: option.splits pyobj.splits)

lemma sub_intensities_0:
  "sub_intensities self it ty w 0 =
   map (\<lambda>x. x * (real_of_int (requested_time self it) / 100000))
     (fst (generate_mock_spectrum self ty w))"
  by (simp add: sub_intensities_def)

lemma generate_nth_reference:
  assumes "instance_ok self w" "i < 2048"
  shows "fst (generate_mock_spectrum self ''reference'' w) ! i =
     40000 + 10000 * exp (- ((np_linspace 200 1100 2048 ! i - 500)\<^sup>2) / 50000)
       + (0 + 500 * std_normal w (draws w) i)"
  using assms(2)
  by (simp add: generate_mock_spectrum_def instance_ok_the_array [OF assms(1)] Let_def
      random_normal_def arr_add_def base_curve_def length_np_linspace)

lemma generate_nth_other:
  assumes "instance_ok self w" "i < 2048" "ty \<noteq> ''reference''"
  shows "fst (generate_mock_spectrum self ty w) ! i =
     40000 + 10000 * exp (- ((np_linspace 200 1100 2048 ! i - 500)\<^sup>2) / 50000)
       + - 15000 * exp (- ((np_linspace 200 1100 2048 ! i - 450)\<^sup>2) / 500)
       + - 8000 * exp (- ((np_linspace 200 1100 2048 ! i - 650)\<^sup>2) / 800)
       + (0 + 500 * std_normal w (draws w) i)"
  using assms(2,3)
  by (simp add: generate_mock_spectrum_def instance_ok_the_array [OF assms(1)] Let_def
      random_normal_def arr_add_def base_curve_def absorption1_def absorption2_def
      length_np_linspace)


lemma measure_spectrum_succeeds:
  assumes "is_connected self" "instance_ok self w" "metadata_ok w md"
  shows "\<exists>d w'. measure_spectrum self it dk nl md ty w = Inr (d, w') \<and>
     integration_time_us d = requested_time self it \<and>
     the_array (heap w') (intensities d) = sub_intensities self it ty w 0 \<and>
     the_array (heap w') (MockSpectrumData.wavelengths d) = np_linspace 200 1100 2048"
  using assms(3)
proof (cases rule: metadata_okE)
  case 1
  then show ?thesis
    by (simp add: measure_spectrum_None_ok [OF assms(1,2)] the_array_def lookup_def nth_append)
next
  case (2 a m)
  have "a < length (heap w)" using 2(2) by (rule lookup_Some_less)
  then show ?thesis
    by (simp add: 2 measure_spectrum_Some [OF assms(1,2) 2(2)] the_array_def lookup_def
        nth_append)
qed


subsection \<open>A series, in closed form\<close>

lemma length_concat_blocks:
  assumes "\<And>i. length (f i) = m"
  shows "length (concat (map f [0..<k])) = m * k"
  by (induction k) (simp_all add: assms)

lemma block_index_less:
  fixes m i j k :: nat
  assumes "i < k" "j < m"
  shows "m * i + j < m * k"
proof -
  have "m * i + j < m * i + m" using assms(2) by simp
  also have "\<dots> = m * Suc i" by simp
  also have "\<dots> \<le> m * k" using assms(1) by (intro mult_le_mono2) simp
  finally show ?thesis .
qed

lemma nth_concat_blocks:
  assumes "\<And>i. length (f i) = m" "i < k" "j < m"
  shows "concat (map f [0..<k]) ! (m * i + j) = f i ! j"
  using assms(2)
proof (induction k)
  case 0
  then show ?case by simp
next
  case (Suc k)
  have len: "length (concat (map f [0..<k])) = m * k"
    by (rule length_concat_blocks) (rule assms(1))
  have split: "concat (map f [0..<Suc k]) = concat (map f [0..<k]) @ f k" by simp
  show ?case
  proof (cases "i < k")
    case True
    then have "m * i + j < m * k" using assms(3) by (rule block_index_less)
    with True Suc.IH show ?thesis unfolding split by (simp add: nth_append len)
  next
    case False
    with Suc.prems have "i = k" by simp
    then show ?thesis unfolding split by (simp add: nth_append len)
  qed
qed

lemma length_sub_block: "length (sub_block self it ty w i) = 3"
  by (simp add: sub_block_def)

lemma length_sub_intensities:
  "instance_ok self w \<Longrightarrow> length (sub_intensities self it ty w i) = 2048"
  by (simp add: sub_intensities_def generate_length the_array_def instance_ok_def
      length_np_linspace)

lemma length_series_heap:
  "length (series_heap self it ty w k) = length (heap w) + 3 * k"
  unfolding series_heap_def
  by (simp only: length_append length_concat_blocks [where m = 3, OF length_sub_block])

lemma series_heap_intensities:
  assumes "i < k"
  shows "the_array (series_heap self it ty w k) (length (heap w) + 3 * i) =
         sub_intensities self it ty w i"
proof -
  have "concat (map (sub_block self it ty w) [0..<k]) ! (3 * i + 0) = sub_block self it ty w i ! 0"
    by (rule nth_concat_blocks [OF length_sub_block assms]) simp
  then have nth: "concat (map (sub_block self it ty w) [0..<k]) ! (3 * i) =
      NDArray (sub_intensities self it ty w i)"
    by (simp add: sub_block_def)
  have lt: "length (heap w) + 3 * i < length (series_heap self it ty w k)"
    using assms by (simp add: length_series_heap)
  have "series_heap self it ty w k ! (length (heap w) + 3 * i) =
      NDArray (sub_intensities self it ty w i)"
    unfolding series_heap_def by (simp only: nth_append_length_plus nth)
  with lt show ?thesis by (simp only: the_array_def lookup_def if_True option.case pyobj.case)
qed

lemma series_rows:
  "map (the_array (series_heap self it ty w k)) (map (\<lambda>i. length (heap w) + 3 * i) [0..<k]) =
   map (sub_intensities self it ty w) [0..<k]"
  by (simp add: series_heap_intensities del: upt_Suc)

lemma series_heap_axis:
  "instance_ok self w \<Longrightarrow>
   the_array (series_heap self it ty w k) (wavelengths self) = np_linspace 200 1100 2048"
  by (simp only: series_heap_def the_array_append_old instance_ok_less instance_ok_the_array)

lemma measure_loop_series:
  assumes "is_connected self" "instance_ok self w" "1 \<le> n"
  shows "measure_loop self it ty (nat n) [] None w =
     Inr (map (\<lambda>i. length (heap w) + 3 * i) [0..<nat n],
          Some (sub_data self it w (nat n - 1)),
          w\<lparr>heap := series_heap self it ty w (nat n), draws := draws w + nat n\<rparr>)"
proof -
  have k: "nat n \<noteq> 0" using assms(3) by simp
  show ?thesis
    by (simp only: measure_loop_closed [OF assms(1) instance_ok_less [OF assms(2)]]
        series_heap_def append_Nil k if_False)
qed

lemma series_rows_comp:
  "map (the_array (series_heap self it ty w k) \<circ> (\<lambda>i. length (heap w) + 3 * i)) [0..<k] =
   map (sub_intensities self it ty w) [0..<k]"
  by (simp add: series_heap_intensities del: upt_Suc)

lemma measure_multiple_average_closed:
  assumes "is_connected self" "instance_ok self w" "1 \<le> n"
  shows "measure_multiple_spectra self n it True ty w =
     Inr (\<lparr>MockSpectrumData.wavelengths = length (heap w) + 3 * nat n + 2,
           intensities = length (heap w) + 3 * nat n,
           timestamp = now w, integration_time_us = requested_time self it,
           metadata = length (heap w) + 3 * nat n + 3\<rparr>,
          w\<lparr>heap := series_heap self it ty w (nat n) @
              [NDArray (np_mean_axis0 (map (sub_intensities self it ty w) [0..<nat n])),
               NDArray (np_std_axis0 (map (sub_intensities self it ty w) [0..<nat n])),
               NDArray (np_linspace 200 1100 2048),
               Dict [(''n_measurements'', PyInt n),
                     (''std_intensities'', PyRef (length (heap w) + 3 * nat n + 1)),
                     (''averaged'', PyBool True), (''mock'', PyBool True)]],
            draws := draws w + nat n\<rparr>)"
proof -
  have wl': "wavelengths self < length (series_heap self it ty w (nat n))"
    using instance_ok_less [OF assms(2)] by (simp add: length_series_heap)
  have ax: "the_array (series_heap self it ty w (nat n) @ xs) (wavelengths self)
      = np_linspace 200 1100 2048" for xs
    by (simp only: the_array_append_old [OF wl'] series_heap_axis [OF assms(2)])
  show ?thesis
    unfolding measure_multiple_spectra_def measure_loop_series [OF assms]
    by (simp add: Let_def alloc_def split_beta series_rows_comp ax length_series_heap sub_data_def
        del: upt_Suc)
qed

lemma measure_multiple_stacked_closed:
  assumes "is_connected self" "instance_ok self w" "1 \<le> n"
  shows "measure_multiple_spectra self n it False ty w =
     Inr (\<lparr>MockSpectrumData.wavelengths = length (heap w) + 3 * nat n + 1,
           intensities = length (heap w) + 3 * nat n,
           timestamp = now w, integration_time_us = requested_time self it,
           metadata = length (heap w) + 3 * nat n + 2\<rparr>,
          w\<lparr>heap := series_heap self it ty w (nat n) @
              [NDArray2 (map (sub_intensities self it ty w) [0..<nat n]),
               NDArray (np_linspace 200 1100 2048),
               Dict [(''n_measurements'', PyInt n),
                     (''averaged'', PyBool False), (''mock'', PyBool True)]],
            draws := draws w + nat n\<rparr>)"
proof -
  have wl': "wavelengths self < length (series_heap self it ty w (nat n))"
    using instance_ok_less [OF assms(2)] by (simp add: length_series_heap)
  have ax: "the_array (series_heap self it ty w (nat n) @ xs) (wavelengths self)
      = np_linspace 200 1100 2048" for xs
    by (simp only: the_array_append_old [OF wl'] series_heap_axis [OF assms(2)])
  show ?thesis
    unfolding measure_multiple_spectra_def measure_loop_series [OF assms]
    by (simp add: Let_def alloc_def split_beta series_rows_comp ax length_series_heap sub_data_def
        del: upt_Suc)
qed

subsection \<open>Metadata, errors and the frame of a call\<close>

lemma map_of_dict_update_fixed:
  "map_of (dict_update m (fixed_keys self dk nl)) = map_of m ++ map_of (fixed_keys self dk nl)"
  by (rule ext) (simp add: dict_update_def fixed_keys_def update_conv' map_add_def)


lemma w2_simps:
  "heap w2 = [NDArray (np_linspace 200 1100 2048), Dict [(''run'', PyInt 7), (''mock'', PyBool False)]]"
  "draws w2 = 0" "now w2 = 0" "std_normal w2 = (\<lambda>k i. 0)"
  by (simp_all add: w2_def alloc_def w1_simps)

lemma instance_ok_c1_w2: "instance_ok c1 w2"
  by (simp add: instance_ok_def c1_simps w2_simps lookup_def)


lemma lookup_w2_1: "lookup (heap w2) 1 = Some (Dict [(''run'', PyInt 7), (''mock'', PyBool False)])"
  by (simp add: w2_simps lookup_def)

lemma measure_c1_w2:
  "measure_spectrum c1 None True False (Some 1) ''sample'' w2 = Inr (d3, w3)"
proof -
  have con: "is_connected c1" by (simp add: c1_simps)
  show ?thesis
    unfolding measure_spectrum_Some [OF con instance_ok_c1_w2 lookup_w2_1]
    by (simp add: d3_def w3_def w2_simps requested_time_def c1_simps dict_update_def
        fixed_keys_def py_opt_str_def)
qed


lemma measure_spectrum_bad_metadata:
  assumes "is_connected self" "\<not> metadata_ok w md"
  shows "measure_spectrum self it dk nl md ty w = Inl (AttributeError ''update'')"
proof -
  from assms(2) obtain a where md: "md = Some a" and
    nd: "lookup (heap w) a = None \<or> (\<exists>xs. lookup (heap w) a = Some (NDArray xs)) \<or>
         (\<exists>xs. lookup (heap w) a = Some (NDArray2 xs))"
    by (auto simp: metadata_ok_def split: option.splits pyobj.splits)
  show ?thesis
    using assms(1) nd
    by (auto simp add: md measure_spectrum_def Let_def split_beta alloc_def generate_world
        lookup_def nth_append split: if_splits)
qed

lemma measure_spectrum_Inr_cases:
  assumes "measure_spectrum self it dk nl md ty w = Inr (d, w')"
  shows "is_connected self \<and> metadata_ok w md"
proof (rule ccontr)
  assume "\<not> ?thesis"
  then consider "\<not> is_connected self" | "is_connected self" "\<not> metadata_ok w md" by blast
  then show False
  proof cases
    case 1
    with assms show False by (simp add: measure_spectrum_disconnected)
  next
    case 2
    with assms show False by (simp add: measure_spectrum_bad_metadata)
  qed
qed

lemma measure_multiple_disconnected:
  assumes "\<not> is_connected self" "1 \<le> n"
  shows "measure_multiple_spectra self n it avg ty w =
         Inl (RuntimeError ''Spectrometer not connected'')"
proof -
  from assms(2) obtain k where k: "nat n = Suc k" by (cases "nat n") auto
  show ?thesis
    by (simp add: measure_multiple_spectra_def k measure_spectrum_disconnected [OF assms(1)])
qed

lemma measure_multiple_Inr_cases:
  assumes "measure_multiple_spectra self n it avg ty w = Inr (d, w')"
  shows "is_connected self \<and> 1 \<le> n"
proof (rule ccontr)
  assume "\<not> ?thesis"
  then consider "n \<le> 0" | "1 \<le> n" "\<not> is_connected self" by fastforce
  then show False
  proof cases
    case 1
    with assms show False by (simp add: measure_multiple_no_iteration)
  next
    case 2
    with assms show False by (simp add: measure_multiple_disconnected)
  qed
qed

lemma series_heap_old:
  "b < length (heap w) \<Longrightarrow> lookup (series_heap self it ty w k @ xs) b = lookup (heap w) b"
  by (simp add: series_heap_def lookup_append_old)

lemma measure_multiple_frame:
  assumes "instance_ok self w" "measure_multiple_spectra self n it avg ty w = Inr (d, w')"
    "b < length (heap w)"
  shows "lookup (heap w') b = lookup (heap w) b"
proof -
  from measure_multiple_Inr_cases [OF assms(2)] have con: "is_connected self" and n: "1 \<le> n"
    by simp_all
  show ?thesis
  proof (cases avg)
    case True
    with assms(2) measure_multiple_average_closed [OF con assms(1) n, of it ty]
    show ?thesis by (auto simp: series_heap_old [OF assms(3)])
  next
    case False
    with assms(2) measure_multiple_stacked_closed [OF con assms(1) n, of it ty]
    show ?thesis by (auto simp: series_heap_old [OF assms(3)])
  qed
qed


subsection \<open>Mean and standard deviation over a series\<close>

lemma column_map: "column (map f [0..<k]) j = map (\<lambda>i. f i ! j) [0..<k]"
  by (simp add: column_def comp_def del: upt_Suc)

lemma rows_Cons: "0 < k \<Longrightarrow> map f [0..<k] = f 0 # map f [1..<k]"
  by (simp add: upt_conv_Cons del: upt_Suc)

lemma np_mean_axis0_rows:
  assumes "0 < k" "\<And>i. length (f i) = m"
  shows "length (np_mean_axis0 (map f [0..<k])) = m"
    and "j < m \<Longrightarrow> np_mean_axis0 (map f [0..<k]) ! j = mean (map (\<lambda>i. f i ! j) [0..<k])"
proof -
  have eq: "np_mean_axis0 (map f [0..<k]) =
      map (\<lambda>j. mean (column (map f [0..<k]) j)) [0..<m]"
    unfolding np_mean_axis0_def by (subst (1) rows_Cons [OF assms(1)]) (simp add: assms(2))
  show "length (np_mean_axis0 (map f [0..<k])) = m" unfolding eq by simp
  show "j < m \<Longrightarrow> np_mean_axis0 (map f [0..<k]) ! j = mean (map (\<lambda>i. f i ! j) [0..<k])"
    unfolding eq by (simp add: column_map del: upt_Suc)
qed

lemma np_std_axis0_rows:
  assumes "0 < k" "\<And>i. length (f i) = m"
  shows "length (np_std_axis0 (map f [0..<k])) = m"
    and "j < m \<Longrightarrow> np_std_axis0 (map f [0..<k]) ! j =
      sqrt (mean (map (\<lambda>i. (f i ! j - mean (map (\<lambda>i. f i ! j) [0..<k]))\<^sup>2) [0..<k]))"
proof -
  have eq: "np_std_axis0 (map f [0..<k]) =
      map (\<lambda>j. sqrt (mean (map (\<lambda>x. (x - mean (column (map f [0..<k]) j))\<^sup>2)
                               (column (map f [0..<k]) j)))) [0..<m]"
    unfolding np_std_axis0_def by (subst (1) rows_Cons [OF assms(1)]) (simp add: assms(2))
  show "length (np_std_axis0 (map f [0..<k])) = m" unfolding eq by simp
  show "j < m \<Longrightarrow> np_std_axis0 (map f [0..<k]) ! j =
      sqrt (mean (map (\<lambda>i. (f i ! j - mean (map (\<lambda>i. f i ! j) [0..<k]))\<^sup>2) [0..<k]))"
    unfolding eq by (simp add: column_map comp_def del: upt_Suc)
qed

lemma mean_upt:
  assumes "1 \<le> n"
  shows "mean (map f [0..<nat n]) = sum_list (map f [0..<nat n]) / real_of_int n"
  using assms by (simp add: mean_def)

lemma sub_intensities_nth:
  assumes "instance_ok self w" "j < 2048"
  shows "sub_intensities self it ty w i ! j =
     fst (generate_mock_spectrum self ty (w\<lparr>draws := draws w + i\<rparr>)) ! j
       * (real_of_int (requested_time self it) / 100000)"
proof -
  have "length (fst (generate_mock_spectrum self ty (w\<lparr>draws := draws w + i\<rparr>))) = 2048"
    using assms(1)
    by (simp add: generate_length the_array_def instance_ok_def length_np_linspace)
  with assms(2) show ?thesis by (simp add: sub_intensities_def)
qed

lemma instance_ok_c1_wn: "instance_ok c1 wn"
  using instance_ok_c1 by (simp add: instance_ok_def wn_def)

lemma sub_intensities_wn:
  "sub_intensities c1 None ''sample'' wn i ! 0 =
     40000 + 10000 * exp (- ((200 - 500)\<^sup>2) / 50000)
       + - 15000 * exp (- ((200 - 450)\<^sup>2) / 500)
       + - 8000 * exp (- ((200 - 650)\<^sup>2) / 800)
       + (0 + 500 * real i)"
proof -
  let ?w = "wn\<lparr>draws := draws wn + i\<rparr>"
  have ok: "instance_ok c1 ?w" using instance_ok_c1_wn by (simp add: instance_ok_def)
  have ax: "np_linspace 200 1100 2048 ! 0 = 200" by (simp add: axis_nth)
  have z: "std_normal ?w (draws ?w) 0 = real i" by (simp add: wn_def w1_simps)
  have t: "real_of_int (requested_time c1 None) / 100000 = 1"
    by (simp add: requested_time_def c1_simps)
  have "sub_intensities c1 None ''sample'' wn i ! 0 =
      fst (generate_mock_spectrum c1 ''sample'' ?w) ! 0 * 1"
    using sub_intensities_nth [OF instance_ok_c1_wn, of 0 None "''sample''" i] unfolding t by simp
  also have "\<dots> = fst (generate_mock_spectrum c1 ''sample'' ?w) ! 0" by simp
  also have "\<dots> = 40000 + 10000 * exp (- ((200 - 500)\<^sup>2) / 50000)
       + - 15000 * exp (- ((200 - 450)\<^sup>2) / 500)
       + - 8000 * exp (- ((200 - 650)\<^sup>2) / 800)
       + (0 + 500 * real i)"
    using generate_nth_other [OF ok, of 0 "''sample''"] unfolding ax z by simp
  finally show ?thesis .
qed


subsection \<open>The spectrum type\<close>








lemma measure_multiple_spectra_instance_ok:
  assumes "instance_ok self w" "measure_multiple_spectra self n it avg ty w = Inr (d, w')"
  shows "instance_ok self w'"
  using measure_multiple_frame [OF assms instance_ok_less [OF assms(1)]] assms(1)
  by (simp add: instance_ok_def)

lemma instance_ok_c1_w3: "instance_ok c1 w3"
  by (rule measure_spectrum_instance_ok [OF instance_ok_c1_w2 measure_c1_w2])

text \<open>
  What one call of \<open>measure_spectrum\<close> allocates and what it leaves unchanged: the arrays
  of the result are new, a dict is new only when no \<open>metadata\<close> is given, and of the
  objects that existed before the call only the dict passed as \<open>metadata\<close> is written.
\<close>

lemma measure_spectrum_effect:
  assumes "instance_ok self w" "measure_spectrum self it dk nl md ty w = Inr (d, w')"
  shows "length (heap w) \<le> intensities d \<and>
         length (heap w) \<le> MockSpectrumData.wavelengths d \<and>
         intensities d \<noteq> MockSpectrumData.wavelengths d \<and>
         MockSpectrumData.wavelengths d \<noteq> wavelengths self \<and>
         lookup (heap w') (MockSpectrumData.wavelengths d) =
           Some (NDArray (np_linspace 200 1100 2048)) \<and>
         (md = None \<longrightarrow> length (heap w) \<le> metadata d \<and>
            metadata d \<noteq> intensities d \<and> metadata d \<noteq> MockSpectrumData.wavelengths d) \<and>
         (\<forall>a. md = Some a \<longrightarrow> metadata d = a \<and> a < length (heap w)) \<and>
         (\<forall>b<length (heap w). md \<noteq> Some b \<longrightarrow> lookup (heap w') b = lookup (heap w) b) \<and>
         (\<forall>n' it' avg' ty' d'' w'' b.
            measure_multiple_spectra self n' it' avg' ty' w = Inr (d'', w'') \<and> b < length (heap w)
            \<longrightarrow> lookup (heap w'') b = lookup (heap w) b)"
proof -
  from measure_spectrum_Inr_cases [OF assms(2)]
  have con: "is_connected self" and mo: "metadata_ok w md" by simp_all
  have wl: "wavelengths self < length (heap w)" by (rule instance_ok_less [OF assms(1)])
  have series: "\<forall>n' it' avg' ty' d'' w'' b.
            measure_multiple_spectra self n' it' avg' ty' w = Inr (d'', w'') \<and> b < length (heap w)
            \<longrightarrow> lookup (heap w'') b = lookup (heap w) b"
    using measure_multiple_frame [OF assms(1)] by blast
  from mo show ?thesis
  proof (cases rule: metadata_okE)
    case 1
    from assms(2) have "d = \<lparr>MockSpectrumData.wavelengths = length (heap w) + 2,
           intensities = length (heap w), timestamp = now w,
           integration_time_us = requested_time self it, metadata = length (heap w) + 1\<rparr>"
      and "heap w' = heap w @ [NDArray (sub_intensities self it ty w 0),
               Dict (fixed_keys self dk nl), NDArray (np_linspace 200 1100 2048)]"
      unfolding 1 measure_spectrum_None_ok [OF con assms(1)] by auto
    with wl series 1 show ?thesis by (simp add: lookup_def nth_append)
  next
    case (2 a m)
    have a: "a < length (heap w)" using 2(2) by (rule lookup_Some_less)
    from assms(2) have "d = \<lparr>MockSpectrumData.wavelengths = length (heap w) + 1,
           intensities = length (heap w), timestamp = now w,
           integration_time_us = requested_time self it, metadata = a\<rparr>"
      and "heap w' = (heap w)[a := Dict (dict_update m (fixed_keys self dk nl))] @
              [NDArray (sub_intensities self it ty w 0), NDArray (np_linspace 200 1100 2048)]"
      unfolding 2(1) measure_spectrum_Some [OF con assms(1) 2(2)] by auto
    with wl series 2(1) a show ?thesis by (simp add: lookup_def nth_append)
  qed
qed

lemma lookup_w3_1:
  "lookup (heap w3) 1 =
     Some (Dict [(''run'', PyInt 7), (''mock'', PyBool True),
                 (''serial_number'', PyStr ''MOCK-001''), (''dark_corrected'', PyBool True),
                 (''nonlinearity_corrected'', PyBool False)])"
  by (simp add: w3_def lookup_def)

lemma measure_c1_w3:
  "measure_spectrum c1 None False False (Some 1) ''sample'' w3 = Inr (d4, w4)"
proof -
  have con: "is_connected c1" by (simp add: c1_simps)
  show ?thesis
    unfolding measure_spectrum_Some [OF con instance_ok_c1_w3 lookup_w3_1]
    by (simp add: d4_def w4_def w3_def w2_simps requested_time_def c1_simps dict_update_def
        fixed_keys_def py_opt_str_def)
qed

lemma measure_c1_w2_None:
  "measure_spectrum c1 None True False None ''sample'' w2 =
     Inr (\<lparr>MockSpectrumData.wavelengths = 4, intensities = 2, timestamp = 0,
           integration_time_us = 100000, metadata = 3\<rparr>,
          w2\<lparr>heap := heap w2 @
              [NDArray (sub_intensities c1 None ''sample'' w2 0),
               Dict (fixed_keys c1 True False),
               NDArray (np_linspace 200 1100 2048)],
            draws := 1\<rparr>)"
proof -
  have con: "is_connected c1" by (simp add: c1_simps)
  show ?thesis
    unfolding measure_spectrum_None_ok [OF con instance_ok_c1_w2]
    by (simp add: w2_simps requested_time_def c1_simps)
qed

section \<open>The claims\<close>

text \<open>
  C1 (as amended). While \<open>is_connected\<close> is false, \<open>get_wavelengths\<close> and
  \<open>measure_spectrum\<close> (with any arguments) and \<open>measure_multiple_spectra\<close> with a
  count of at least one (and either value of \<open>average\<close>) raise
  \<open>RuntimeError("Spectrometer not connected")\<close>; while it is true none of the three
  raises that error, whatever the arguments.
\<close>

theorem not_connected_error:
  "(\<not> is_connected self \<longrightarrow>
      get_wavelengths self = Inl (RuntimeError ''Spectrometer not connected'') \<and>
      measure_spectrum self it dk nl md ty w = Inl (RuntimeError ''Spectrometer not connected'') \<and>
      (1 \<le> n \<longrightarrow> measure_multiple_spectra self n it avg ty w =
                      Inl (RuntimeError ''Spectrometer not connected''))) \<and>
   (is_connected self \<longrightarrow>
      get_wavelengths self \<noteq> Inl (RuntimeError ''Spectrometer not connected'') \<and>
      measure_spectrum self it dk nl md ty w \<noteq> Inl (RuntimeError ''Spectrometer not connected'') \<and>
      measure_multiple_spectra self n it avg ty w \<noteq> Inl (RuntimeError ''Spectrometer not connected''))"
proof (intro conjI impI)
  assume n: "1 \<le> n" and dis: "\<not> is_connected self"
  from n obtain k where k: "nat n = Suc k" by (cases "nat n") auto
  show "measure_multiple_spectra self n it avg ty w = Inl (RuntimeError ''Spectrometer not connected'')"
    by (simp add: measure_multiple_spectra_def k measure_spectrum_disconnected [OF dis])
qed (simp_all add: get_wavelengths_def measure_spectrum_disconnected
       measure_spectrum_not_RuntimeError measure_multiple_not_RuntimeError)

theorem not_connected_error_witness:
  "\<not> is_connected c0 \<and> is_connected c1 \<and> (1::int) \<le> 3 \<and>
   get_wavelengths c0 = Inl (RuntimeError ''Spectrometer not connected'') \<and>
   measure_spectrum c0 None False False None ''sample'' w1 =
     Inl (RuntimeError ''Spectrometer not connected'') \<and>
   measure_multiple_spectra c0 3 None True ''sample'' w1 =
     Inl (RuntimeError ''Spectrometer not connected'') \<and>
   get_wavelengths c1 \<noteq> Inl (RuntimeError ''Spectrometer not connected'') \<and>
   measure_spectrum c1 None False False None ''sample'' w1 \<noteq>
     Inl (RuntimeError ''Spectrometer not connected'') \<and>
   measure_multiple_spectra c1 3 None True ''sample'' w1 \<noteq>
     Inl (RuntimeError ''Spectrometer not connected'')"
  using not_connected_error [where self = c0 and it = None and dk = False and nl = False
      and md = None and ty = "''sample''" and w = w1 and n = 3 and avg = True]
    not_connected_error [where self = c1 and it = None and dk = False and nl = False
      and md = None and ty = "''sample''" and w = w1 and n = 3 and avg = True]
  by (simp add: c0_simps c1_simps)

text \<open>
  C1 as stated fails for a count of zero: on the disconnected instance \<open>c0\<close> the loop
  body never runs, so the connection is never checked, and the call ends with the
  \<open>UnboundLocalError\<close> for \<open>data\<close>.
\<close>

theorem series_zero_disconnected_counterexample:
  "\<not> is_connected c0 \<and>
   measure_multiple_spectra c0 0 None True ''sample'' w1 = Inl (UnboundLocalError ''data'') \<and>
   measure_multiple_spectra c0 0 None True ''sample'' w1 \<noteq>
     Inl (RuntimeError ''Spectrometer not connected'')"
  by (simp add: c0_simps measure_multiple_spectra_def Let_def split_beta)

text \<open>
  C9. \<open>optimize_integration_time\<close> returns 120000 for every instance, connected or
  not, and for all values of \<open>target_counts\<close> and \<open>max_iterations\<close>.
\<close>

theorem optimize_integration_time_constant:
  "optimize_integration_time self target_counts max_iterations = 120000"
  by (simp add: optimize_integration_time_def)

text \<open>
  C5. On a connected instance \<open>get_wavelengths\<close> returns the instance's axis array:
  2048 values, the first 200, the last 1100, the \<open>i\<close>-th \<open>200 + i * 900 / 2047\<close>,
  strictly increasing; the values are the same in every world the instance lives in, so
  repeated calls return identical values.
\<close>

theorem get_wavelengths_axis:
  assumes "instance_ok self w" "is_connected self"
  shows "get_wavelengths self = Inr (wavelengths self) \<and>
    lookup (heap w) (wavelengths self) = Some (NDArray (the_array (heap w) (wavelengths self))) \<and>
    length (the_array (heap w) (wavelengths self)) = 2048 \<and>
    the_array (heap w) (wavelengths self) ! 0 = 200 \<and>
    last (the_array (heap w) (wavelengths self)) = 1100 \<and>
    (\<forall>i<2048. the_array (heap w) (wavelengths self) ! i = 200 + real i * (900 / 2047)) \<and>
    (\<forall>i j. i < j \<and> j < 2048 \<longrightarrow>
       the_array (heap w) (wavelengths self) ! i < the_array (heap w) (wavelengths self) ! j) \<and>
    (\<forall>w'. instance_ok self w' \<longrightarrow>
       the_array (heap w') (wavelengths self) = the_array (heap w) (wavelengths self))"
proof -
  have eq: "the_array (heap w) (wavelengths self) = np_linspace 200 1100 2048"
    by (rule instance_ok_the_array [OF assms(1)])
  show ?thesis
    unfolding eq using assms
    by (simp add: get_wavelengths_def instance_ok_def length_np_linspace axis_nth axis_last
        instance_ok_the_array)
qed

theorem get_wavelengths_axis_witness:
  "instance_ok c1 w1 \<and> is_connected c1 \<and> get_wavelengths c1 = Inr 0 \<and>
   lookup (heap w1) 0 = Some (NDArray (the_array (heap w1) 0)) \<and>
   length (the_array (heap w1) 0) = 2048 \<and>
   the_array (heap w1) 0 ! 0 = 200 \<and> last (the_array (heap w1) 0) = 1100 \<and>
   the_array (heap w1) 0 ! 2047 = 1100 \<and>
   the_array (heap w1) 0 ! 1 = 200 + 900 / 2047 \<and>
   the_array (heap w1) 0 ! 1 < the_array (heap w1) 0 ! 2 \<and>
   instance_ok c1 w3 \<and> the_array (heap w3) 0 = the_array (heap w1) 0"
proof -
  have ok: "instance_ok c1 w1" by (rule instance_ok_c1)
  have con: "is_connected c1" by (simp add: c1_simps)
  from get_wavelengths_axis [OF ok con] have
    a: "get_wavelengths c1 = Inr (wavelengths c1)" and
    b: "lookup (heap w1) (wavelengths c1) = Some (NDArray (the_array (heap w1) (wavelengths c1)))" and
    c: "length (the_array (heap w1) (wavelengths c1)) = 2048" and
    d: "the_array (heap w1) (wavelengths c1) ! 0 = 200" and
    e: "last (the_array (heap w1) (wavelengths c1)) = 1100" and
    f: "\<forall>i<2048. the_array (heap w1) (wavelengths c1) ! i = 200 + real i * (900 / 2047)" and
    g: "\<forall>i j. i < j \<and> j < 2048 \<longrightarrow>
       the_array (heap w1) (wavelengths c1) ! i < the_array (heap w1) (wavelengths c1) ! j" and
    h: "\<forall>w'. instance_ok c1 w' \<longrightarrow>
       the_array (heap w') (wavelengths c1) = the_array (heap w1) (wavelengths c1)"
    by blast+
  from f have f1: "the_array (heap w1) (wavelengths c1) ! 2047 = 200 + real 2047 * (900 / 2047)"
    and f2: "the_array (heap w1) (wavelengths c1) ! 1 = 200 + real 1 * (900 / 2047)" by simp_all
  from g have g1: "the_array (heap w1) (wavelengths c1) ! 1 < the_array (heap w1) (wavelengths c1) ! 2"
    by simp
  from h instance_ok_c1_w3
  have h1: "the_array (heap w3) (wavelengths c1) = the_array (heap w1) (wavelengths c1)" by blast
  show ?thesis using ok con a b c d e f1 f2 g1 h1 instance_ok_c1_w3 by (simp add: c1_simps)
qed

text \<open>
  C6. At every point \<open>x\<close> of the axis the synthesized spectrum is
  \<open>40000 + 10000 exp(-(x-500)\<^sup>2/50000)\<close> for \<open>"reference"\<close>, and that plus
  \<open>-15000 exp(-(x-450)\<^sup>2/500)\<close> plus \<open>-8000 exp(-(x-650)\<^sup>2/800)\<close> for
  \<open>"sample"\<close>, each plus the noise term: the value at that point of a new draw of
  \<open>np.random.normal(0, 500, 2048)\<close>, that is \<open>0 + 500 z\<close> for a standard normal
  draw \<open>z\<close>.
\<close>

theorem generate_mock_spectrum_formula:
  assumes "instance_ok self w" "i < 2048"
  shows "fst (generate_mock_spectrum self ''reference'' w) ! i =
           40000 + 10000 * exp (- ((the_array (heap w) (wavelengths self) ! i - 500)\<^sup>2) / 50000)
             + (0 + 500 * std_normal w (draws w) i) \<and>
         fst (generate_mock_spectrum self ''sample'' w) ! i =
           40000 + 10000 * exp (- ((the_array (heap w) (wavelengths self) ! i - 500)\<^sup>2) / 50000)
             + - 15000 * exp (- ((the_array (heap w) (wavelengths self) ! i - 450)\<^sup>2) / 500)
             + - 8000 * exp (- ((the_array (heap w) (wavelengths self) ! i - 650)\<^sup>2) / 800)
             + (0 + 500 * std_normal w (draws w) i) \<and>
         length (fst (generate_mock_spectrum self ''reference'' w)) = 2048 \<and>
         length (fst (generate_mock_spectrum self ''sample'' w)) = 2048 \<and>
         draws (snd (generate_mock_spectrum self ''reference'' w)) = draws w + 1 \<and>
         draws (snd (generate_mock_spectrum self ''sample'' w)) = draws w + 1"
  by (simp add: generate_nth_reference [OF assms] generate_nth_other [OF assms]
      instance_ok_the_array [OF assms(1)] generate_length generate_world length_np_linspace)

theorem generate_mock_spectrum_formula_witness:
  "instance_ok c1 w1 \<and> (0::nat) < 2048 \<and>
   fst (generate_mock_spectrum c1 ''reference'' w1) ! 0 =
     40000 + 10000 * exp (- (300\<^sup>2) / 50000) \<and>
   fst (generate_mock_spectrum c1 ''sample'' w1) ! 0 =
     40000 + 10000 * exp (- (300\<^sup>2) / 50000) - 15000 * exp (- (250\<^sup>2) / 500)
       - 8000 * exp (- (450\<^sup>2) / 800)"
proof -
  have ok: "instance_ok c1 w1" by (rule instance_ok_c1)
  have ax: "the_array (heap w1) (wavelengths c1) ! 0 = 200"
    by (simp add: instance_ok_the_array [OF ok] axis_nth)
  show ?thesis
    using generate_mock_spectrum_formula [OF ok, of 0] ok
    by (simp add: ax w1_simps(2-4))
qed


text \<open>
  C4. On a connected instance \<open>measure_spectrum\<close> returns intensities equal to the
  synthesized spectrum times \<open>t / 100000\<close>, \<open>t\<close> the integration time given or
  the stored default; measured in the same world (the same noise draw), 200000 gives
  exactly twice the intensities of 100000.
\<close>

theorem measure_spectrum_scaling:
  assumes "is_connected self" "instance_ok self w" "metadata_ok w md"
  shows "(\<exists>d w'. measure_spectrum self it dk nl md ty w = Inr (d, w') \<and>
            integration_time_us d = requested_time self it \<and>
            the_array (heap w') (intensities d) =
              map (\<lambda>x. x * (real_of_int (requested_time self it) / 100000))
                (fst (generate_mock_spectrum self ty w))) \<and>
         (\<exists>d1 w1 d2 w2.
            measure_spectrum self (Some 100000) dk nl md ty w = Inr (d1, w1) \<and>
            measure_spectrum self (Some 200000) dk nl md ty w = Inr (d2, w2) \<and>
            the_array (heap w2) (intensities d2) =
              map (\<lambda>x. 2 * x) (the_array (heap w1) (intensities d1)))"
proof -
  from measure_spectrum_succeeds [OF assms, of it dk nl ty]
  have a: "\<exists>d w'. measure_spectrum self it dk nl md ty w = Inr (d, w') \<and>
            integration_time_us d = requested_time self it \<and>
            the_array (heap w') (intensities d) =
              map (\<lambda>x. x * (real_of_int (requested_time self it) / 100000))
                (fst (generate_mock_spectrum self ty w))"
    unfolding sub_intensities_0 by blast
  from measure_spectrum_succeeds [OF assms, of "Some 100000" dk nl ty]
  obtain d1 w1 where 1: "measure_spectrum self (Some 100000) dk nl md ty w = Inr (d1, w1)"
    "the_array (heap w1) (intensities d1) = sub_intensities self (Some 100000) ty w 0" by blast
  from measure_spectrum_succeeds [OF assms, of "Some 200000" dk nl ty]
  obtain d2 w2 where 2: "measure_spectrum self (Some 200000) dk nl md ty w = Inr (d2, w2)"
    "the_array (heap w2) (intensities d2) = sub_intensities self (Some 200000) ty w 0" by blast
  have "the_array (heap w2) (intensities d2) = map (\<lambda>x. 2 * x) (the_array (heap w1) (intensities d1))"
    by (simp add: 1(2) 2(2) sub_intensities_0 requested_time_def)
  with 1(1) 2(1) a show ?thesis by blast
qed

theorem measure_spectrum_scaling_witness:
  "is_connected c1 \<and> instance_ok c1 w1 \<and> metadata_ok w1 None \<and>
   (\<exists>d w'. measure_spectrum c1 None False False None ''reference'' w1 = Inr (d, w') \<and>
      integration_time_us d = 100000 \<and>
      the_array (heap w') (intensities d) =
        map (\<lambda>x. x * (real_of_int 100000 / 100000))
          (fst (generate_mock_spectrum c1 ''reference'' w1))) \<and>
   (\<exists>d1 w1' d2 w2.
      measure_spectrum c1 (Some 100000) False False None ''reference'' w1 = Inr (d1, w1') \<and>
      measure_spectrum c1 (Some 200000) False False None ''reference'' w1 = Inr (d2, w2) \<and>
      the_array (heap w2) (intensities d2) =
        map (\<lambda>x. 2 * x) (the_array (heap w1') (intensities d1)))"
proof -
  have con: "is_connected c1" by (simp add: c1_simps)
  have md: "metadata_ok w1 None" by (simp add: metadata_ok_def)
  have t: "requested_time c1 None = 100000" by (simp add: requested_time_def c1_simps)
  show ?thesis
    using measure_spectrum_scaling [OF con instance_ok_c1 md, of None False False "''reference''"]
      con instance_ok_c1 md
    unfolding t by blast
qed


text \<open>
  C8. On a connected instance the metadata of the measurement returned by
  \<open>measure_spectrum\<close> is the caller's mapping updated with the four fixed keys
  (\<open>serial_number\<close>, \<open>dark_corrected\<close> and \<open>nonlinearity_corrected\<close> as passed,
  \<open>mock\<close> true): as a map it is the caller's map overridden by the fixed keys, so on a
  conflict the fixed value wins and every other key keeps the caller's value. With no
  mapping given, it is the fixed keys alone.
\<close>

theorem measure_spectrum_metadata:
  assumes "is_connected self" "instance_ok self w"
  shows "(lookup (heap w) a = Some (Dict m) \<longrightarrow>
           (\<exists>d w'. measure_spectrum self it dk nl (Some a) ty w = Inr (d, w') \<and>
              lookup (heap w') (metadata d) =
                Some (Dict (dict_update m (fixed_keys self dk nl))))) \<and>
         (\<exists>d w'. measure_spectrum self it dk nl None ty w = Inr (d, w') \<and>
              lookup (heap w') (metadata d) = Some (Dict (dict_update [] (fixed_keys self dk nl)))) \<and>
         map_of (dict_update m (fixed_keys self dk nl)) =
           map_of m ++ map_of (fixed_keys self dk nl) \<and>
         map_of (dict_update m (fixed_keys self dk nl)) ''serial_number'' =
           Some (py_opt_str (serial_number self)) \<and>
         map_of (dict_update m (fixed_keys self dk nl)) ''dark_corrected'' = Some (PyBool dk) \<and>
         map_of (dict_update m (fixed_keys self dk nl)) ''nonlinearity_corrected'' =
           Some (PyBool nl) \<and>
         map_of (dict_update m (fixed_keys self dk nl)) ''mock'' = Some (PyBool True) \<and>
         (\<forall>k. k \<notin> {''serial_number'', ''dark_corrected'', ''nonlinearity_corrected'', ''mock''}
            \<longrightarrow> map_of (dict_update m (fixed_keys self dk nl)) k = map_of m k)"
proof (intro conjI impI)
  assume m: "lookup (heap w) a = Some (Dict m)"
  then have "a < length (heap w)" by (rule lookup_Some_less)
  then show "\<exists>d w'. measure_spectrum self it dk nl (Some a) ty w = Inr (d, w') \<and>
              lookup (heap w') (metadata d) = Some (Dict (dict_update m (fixed_keys self dk nl)))"
    by (simp add: measure_spectrum_Some [OF assms m] lookup_def nth_append)
next
  show "\<exists>d w'. measure_spectrum self it dk nl None ty w = Inr (d, w') \<and>
          lookup (heap w') (metadata d) = Some (Dict (dict_update [] (fixed_keys self dk nl)))"
    by (simp add: measure_spectrum_None_ok [OF assms] lookup_def nth_append dict_update_def
        fixed_keys_def)
qed (simp_all add: map_of_dict_update_fixed, simp_all add: fixed_keys_def map_add_def)


theorem measure_spectrum_metadata_witness:
  "is_connected c1 \<and> instance_ok c1 w2 \<and>
   lookup (heap w2) 1 = Some (Dict [(''run'', PyInt 7), (''mock'', PyBool False)]) \<and>
   (\<exists>d w'. measure_spectrum c1 None True False (Some 1) ''sample'' w2 = Inr (d, w') \<and>
      lookup (heap w') (metadata d) =
        Some (Dict [(''run'', PyInt 7), (''mock'', PyBool True),
                    (''serial_number'', PyStr ''MOCK-001''), (''dark_corrected'', PyBool True),
                    (''nonlinearity_corrected'', PyBool False)]))"
proof -
  have con: "is_connected c1" by (simp add: c1_simps)
  have m: "lookup (heap w2) 1 = Some (Dict [(''run'', PyInt 7), (''mock'', PyBool False)])"
    by (simp add: w2_simps lookup_def)
  have upd: "dict_update [(''run'', PyInt 7), (''mock'', PyBool False)] (fixed_keys c1 True False)
     = [(''run'', PyInt 7), (''mock'', PyBool True),
                    (''serial_number'', PyStr ''MOCK-001''), (''dark_corrected'', PyBool True),
                    (''nonlinearity_corrected'', PyBool False)]"
    by (simp add: dict_update_def fixed_keys_def c1_simps py_opt_str_def)
  from measure_spectrum_metadata [OF con instance_ok_c1_w2, of 1
      "[(''run'', PyInt 7), (''mock'', PyBool False)]" None True False "''sample''"] m
  have "\<exists>d w'. measure_spectrum c1 None True False (Some 1) ''sample'' w2 = Inr (d, w') \<and>
      lookup (heap w') (metadata d) =
        Some (Dict (dict_update [(''run'', PyInt 7), (''mock'', PyBool False)] (fixed_keys c1 True False)))"
    by blast
  with con instance_ok_c1_w2 m show ?thesis unfolding upd by blast
qed

text \<open>
  C7. The code at an input on which it shares and changes a dict of the caller: the caller's
  dict \<open>{'run': 7, 'mock': False}\<close> (address 1) is passed as \<open>metadata\<close>. The object
  returned, \<open>d3\<close>, has that very dict as its metadata, and the call has overwritten the
  caller's entry \<open>mock\<close> and added three keys to it. When the caller passes the dict to a
  second measurement, the metadata of the first result changes after its return
  (\<open>dark_corrected\<close> goes from \<open>True\<close> to \<open>False\<close>) and both results hold the same
  dict, while the intensities and wavelengths of the first result stay as they were. With
  no \<open>metadata\<close> given, the same call makes a new dict and leaves the caller's dict alone.
\<close>

theorem metadata_aliased_and_mutated:
  "lookup (heap w2) 1 = Some (Dict [(''run'', PyInt 7), (''mock'', PyBool False)]) \<and>
   measure_spectrum c1 None True False (Some 1) ''sample'' w2 = Inr (d3, w3) \<and>
   metadata d3 = 1 \<and>
   lookup (heap w3) 1 =
     Some (Dict [(''run'', PyInt 7), (''mock'', PyBool True),
                 (''serial_number'', PyStr ''MOCK-001''), (''dark_corrected'', PyBool True),
                 (''nonlinearity_corrected'', PyBool False)]) \<and>
   lookup (heap w3) 1 \<noteq> lookup (heap w2) 1 \<and>
   measure_spectrum c1 None False False (Some 1) ''sample'' w3 = Inr (d4, w4) \<and>
   metadata d4 = metadata d3 \<and>
   lookup (heap w4) (metadata d3) =
     Some (Dict [(''run'', PyInt 7), (''mock'', PyBool True),
                 (''serial_number'', PyStr ''MOCK-001''), (''dark_corrected'', PyBool False),
                 (''nonlinearity_corrected'', PyBool False)]) \<and>
   lookup (heap w4) (metadata d3) \<noteq> lookup (heap w3) (metadata d3) \<and>
   lookup (heap w4) (intensities d3) = lookup (heap w3) (intensities d3) \<and>
   lookup (heap w4) (MockSpectrumData.wavelengths d3) =
     lookup (heap w3) (MockSpectrumData.wavelengths d3) \<and>
   (\<exists>d w'. measure_spectrum c1 None True False None ''sample'' w2 = Inr (d, w') \<and>
      metadata d = length (heap w2) + 1 \<and>
      lookup (heap w') (metadata d) = Some (Dict (fixed_keys c1 True False)) \<and>
      lookup (heap w') 1 = lookup (heap w2) 1)"
proof -
  have a: "lookup (heap w3) 1 \<noteq> lookup (heap w2) 1"
    unfolding lookup_w3_1 lookup_w2_1 by simp
  have b: "metadata d3 = 1" "metadata d4 = metadata d3" by (simp_all add: d3_def d4_def)
  have c: "lookup (heap w4) (metadata d3) =
     Some (Dict [(''run'', PyInt 7), (''mock'', PyBool True),
                 (''serial_number'', PyStr ''MOCK-001''), (''dark_corrected'', PyBool False),
                 (''nonlinearity_corrected'', PyBool False)])"
    by (simp add: d3_def w4_def lookup_def)
  have d: "lookup (heap w4) (metadata d3) \<noteq> lookup (heap w3) (metadata d3)"
    using c lookup_w3_1 by (simp add: d3_def)
  have e: "lookup (heap w4) (intensities d3) = lookup (heap w3) (intensities d3)"
    "lookup (heap w4) (MockSpectrumData.wavelengths d3) =
     lookup (heap w3) (MockSpectrumData.wavelengths d3)"
    by (simp_all add: d3_def w4_def w3_def lookup_def)
  have f: "\<exists>d w'. measure_spectrum c1 None True False None ''sample'' w2 = Inr (d, w') \<and>
      metadata d = length (heap w2) + 1 \<and>
      lookup (heap w') (metadata d) = Some (Dict (fixed_keys c1 True False)) \<and>
      lookup (heap w') 1 = lookup (heap w2) 1"
    unfolding measure_c1_w2_None by (simp add: w2_simps lookup_def)
  show ?thesis
    apply (intro conjI)
    apply (rule lookup_w2_1 measure_c1_w2 b lookup_w3_1 a measure_c1_w3 c d e f)+
    done
qed


text \<open>
  C2. The code at the input of the claim: on the connected instance \<open>c1\<close> a series of
  zero measurements raises \<open>UnboundLocalError\<close> for \<open>data\<close>, with \<open>average\<close> true
  and false. No invalid-argument error is raised.
\<close>

theorem series_zero_connected_fails:
  "is_connected c1 \<and>
   measure_multiple_spectra c1 0 None True ''sample'' w1 = Inl (UnboundLocalError ''data'') \<and>
   measure_multiple_spectra c1 0 None False ''sample'' w1 = Inl (UnboundLocalError ''data'')"
  by (simp add: c1_simps measure_multiple_no_iteration)

text \<open>
  C3. On a connected instance, for \<open>n \<ge> 1\<close>, the averaged series returns one
  measurement: its intensities are, point by point, the sum of the \<open>n\<close>
  sub-measurements' intensities divided by \<open>n\<close>; its metadata is \<open>n_measurements = n\<close>,
  \<open>std_intensities\<close> (an array as long as the axis, point by point the population
  standard deviation of the sub-measurements: the square root of the sum of their squared
  deviations from the mean, divided by \<open>n\<close>), \<open>averaged = True\<close> and \<open>mock = True\<close>;
  its integration time is that of the last sub-measurement, the object the loop left in
  \<open>data\<close>. The \<open>i\<close>-th sub-measurement's intensities are the spectrum synthesized
  from the \<open>i\<close>-th following draw of the noise, scaled by the integration time.
\<close>

theorem measure_multiple_spectra_average:
  assumes "is_connected self" "instance_ok self w" "1 \<le> n"
  shows "\<exists>d w' s.
     measure_multiple_spectra self n it True ty w = Inr (d, w') \<and>
     length (the_array (heap w') (intensities d)) = 2048 \<and>
     (\<forall>j<2048. the_array (heap w') (intensities d) ! j =
        sum_list (map (\<lambda>i. sub_intensities self it ty w i ! j) [0..<nat n]) / real_of_int n) \<and>
     lookup (heap w') (metadata d) =
       Some (Dict [(''n_measurements'', PyInt n), (''std_intensities'', PyRef s),
                   (''averaged'', PyBool True), (''mock'', PyBool True)]) \<and>
     length (the_array (heap w') s) = 2048 \<and>
     length (the_array (heap w') (MockSpectrumData.wavelengths d)) = 2048 \<and>
     (\<forall>j<2048. the_array (heap w') s ! j =
        sqrt (sum_list (map (\<lambda>i. (sub_intensities self it ty w i ! j
                               - the_array (heap w') (intensities d) ! j)\<^sup>2) [0..<nat n])
              / real_of_int n)) \<and>
     integration_time_us d = requested_time self it \<and>
     (\<forall>i j. j < 2048 \<longrightarrow> sub_intensities self it ty w i ! j =
        fst (generate_mock_spectrum self ty (w\<lparr>draws := draws w + i\<rparr>)) ! j
          * (real_of_int (requested_time self it) / 100000)) \<and>
     (\<exists>ms dl w1. measure_loop self it ty (nat n) [] None w = Inr (ms, Some dl, w1) \<and>
        length ms = nat n \<and>
        map (the_array (heap w1)) ms = map (sub_intensities self it ty w) [0..<nat n] \<and>
        integration_time_us d = integration_time_us dl)"
proof -
  let ?k = "nat n"
  let ?L = "length (heap w) + 3 * ?k"
  let ?rows = "map (sub_intensities self it ty w) [0..<?k]"
  let ?h = "series_heap self it ty w ?k @
              [NDArray (np_mean_axis0 ?rows), NDArray (np_std_axis0 ?rows),
               NDArray (np_linspace 200 1100 2048),
               Dict [(''n_measurements'', PyInt n), (''std_intensities'', PyRef (?L + 1)),
                     (''averaged'', PyBool True), (''mock'', PyBool True)]]"
  have k: "0 < ?k" using assms(3) by simp
  have len: "\<And>i. length (sub_intensities self it ty w i) = 2048"
    by (rule length_sub_intensities [OF assms(2)])
  have L: "length (series_heap self it ty w ?k) = ?L" by (rule length_series_heap)
  have avg: "the_array ?h ?L = np_mean_axis0 ?rows"
    by (simp add: the_array_def lookup_def L nth_append del: upt_Suc)
  have std: "the_array ?h (?L + 1) = np_std_axis0 ?rows"
    by (simp add: the_array_def lookup_def L nth_append del: upt_Suc)
  have ax: "the_array ?h (?L + 2) = np_linspace 200 1100 2048"
    by (simp add: the_array_def lookup_def L nth_append del: upt_Suc)
  have md: "lookup ?h (?L + 3) =
      Some (Dict [(''n_measurements'', PyInt n), (''std_intensities'', PyRef (?L + 1)),
                  (''averaged'', PyBool True), (''mock'', PyBool True)])"
    by (simp add: lookup_def L nth_append del: upt_Suc)
  have loop: "\<exists>ms dl w1. measure_loop self it ty ?k [] None w = Inr (ms, Some dl, w1) \<and>
        length ms = ?k \<and>
        map (the_array (heap w1)) ms = ?rows \<and>
        requested_time self it = integration_time_us dl"
    by (simp add: measure_loop_series [OF assms] series_rows_comp sub_data_def del: upt_Suc)
  have mean_j: "\<forall>j<2048. np_mean_axis0 ?rows ! j =
        sum_list (map (\<lambda>i. sub_intensities self it ty w i ! j) [0..<?k]) / real_of_int n"
    by (intro allI impI)
      (simp only: np_mean_axis0_rows(2) [OF k len] mean_upt [OF assms(3)])
  have std_j: "\<forall>j<2048. np_std_axis0 ?rows ! j =
        sqrt (sum_list (map (\<lambda>i. (sub_intensities self it ty w i ! j
                                    - np_mean_axis0 ?rows ! j)\<^sup>2) [0..<?k])
              / real_of_int n)"
    by (intro allI impI)
      (simp only: np_std_axis0_rows(2) [OF k len] np_mean_axis0_rows(2) [OF k len]
         mean_upt [OF assms(3)])
  define w' where "w' = w\<lparr>heap := ?h, draws := draws w + ?k\<rparr>"
  define d where "d = \<lparr>MockSpectrumData.wavelengths = ?L + 2, intensities = ?L,
      timestamp = now w, integration_time_us = requested_time self it, metadata = ?L + 3\<rparr>"
  have hw: "heap w' = ?h" by (simp add: w'_def)
  have sel: "intensities d = ?L" "metadata d = ?L + 3" "MockSpectrumData.wavelengths d = ?L + 2"
    "integration_time_us d = requested_time self it"
    by (simp_all add: d_def)
  have res: "measure_multiple_spectra self n it True ty w = Inr (d, w')"
    unfolding measure_multiple_average_closed [OF assms] d_def w'_def by (rule refl)
  have f1: "length (the_array (heap w') (intensities d)) = 2048"
    by (simp only: hw sel avg np_mean_axis0_rows(1) [OF k len])
  have f2: "\<forall>j<2048. the_array (heap w') (intensities d) ! j =
        sum_list (map (\<lambda>i. sub_intensities self it ty w i ! j) [0..<?k]) / real_of_int n"
    unfolding hw sel avg by (rule mean_j)
  have f3: "lookup (heap w') (metadata d) =
       Some (Dict [(''n_measurements'', PyInt n), (''std_intensities'', PyRef (?L + 1)),
                   (''averaged'', PyBool True), (''mock'', PyBool True)])"
    by (simp only: hw sel md)
  have f4: "length (the_array (heap w') (?L + 1)) = 2048"
    by (simp only: hw std np_std_axis0_rows(1) [OF k len])
  have f5: "length (the_array (heap w') (MockSpectrumData.wavelengths d)) = 2048"
    by (simp only: hw sel ax length_np_linspace)
  have f6: "\<forall>j<2048. the_array (heap w') (?L + 1) ! j =
        sqrt (sum_list (map (\<lambda>i. (sub_intensities self it ty w i ! j
                               - the_array (heap w') (intensities d) ! j)\<^sup>2) [0..<?k])
              / real_of_int n)"
    unfolding hw sel avg std by (rule std_j)
  have f7: "\<forall>i j. j < 2048 \<longrightarrow> sub_intensities self it ty w i ! j =
        fst (generate_mock_spectrum self ty (w\<lparr>draws := draws w + i\<rparr>)) ! j
          * (real_of_int (requested_time self it) / 100000)"
    by (intro allI impI) (rule sub_intensities_nth [OF assms(2)])
  have f8: "\<exists>ms dl w1. measure_loop self it ty ?k [] None w = Inr (ms, Some dl, w1) \<and>
        length ms = ?k \<and>
        map (the_array (heap w1)) ms = ?rows \<and>
        integration_time_us d = integration_time_us dl"
    unfolding sel by (rule loop)
  show ?thesis
    apply (rule exI [of _ d], rule exI [of _ w'], rule exI [of _ "?L + 1"])
    apply (intro conjI)
             apply (rule res f1 f2 f3 f4 f5 f6 sel(4) f7 f8)+
    done
qed

theorem measure_multiple_spectra_average_witness:
  "is_connected c1 \<and> instance_ok c1 wn \<and> (1::int) \<le> 2 \<and>
   (\<exists>d w' s. measure_multiple_spectra c1 2 None True ''sample'' wn = Inr (d, w') \<and>
      length (the_array (heap w') (intensities d)) = 2048 \<and>
      the_array (heap w') (intensities d) ! 0 =
        40000 + 10000 * exp (- ((200 - 500)\<^sup>2) / 50000)
          + - 15000 * exp (- ((200 - 450)\<^sup>2) / 500)
          + - 8000 * exp (- ((200 - 650)\<^sup>2) / 800) + 250 \<and>
      lookup (heap w') (metadata d) =
        Some (Dict [(''n_measurements'', PyInt 2), (''std_intensities'', PyRef s),
                    (''averaged'', PyBool True), (''mock'', PyBool True)]) \<and>
      length (the_array (heap w') s) = 2048 \<and>
      the_array (heap w') s ! 0 = 250 \<and>
      integration_time_us d = 100000)"
proof -
  define B :: real where "B = 40000 + 10000 * exp (- ((200 - 500)\<^sup>2) / 50000)
          + - 15000 * exp (- ((200 - 450)\<^sup>2) / 500)
          + - 8000 * exp (- ((200 - 650)\<^sup>2) / 800)"
  have con: "is_connected c1" by (simp add: c1_simps)
  have n: "(1::int) \<le> 2" by simp
  have t: "requested_time c1 None = 100000" by (simp add: requested_time_def c1_simps)
  have two: "[0..<nat 2] = [0, 1]" by (simp add: upt_rec)
  have s0: "sub_intensities c1 None ''sample'' wn 0 ! 0 = B"
    unfolding B_def sub_intensities_wn by simp
  have s1: "sub_intensities c1 None ''sample'' wn (Suc 0) ! 0 = B + 500"
    unfolding B_def sub_intensities_wn by simp
  from measure_multiple_spectra_average [OF con instance_ok_c1_wn n, of None "''sample''"]
  obtain d w' s where r:
    "measure_multiple_spectra c1 2 None True ''sample'' wn = Inr (d, w')"
    "length (the_array (heap w') (intensities d)) = 2048"
    "\<forall>j<2048. the_array (heap w') (intensities d) ! j =
        sum_list (map (\<lambda>i. sub_intensities c1 None ''sample'' wn i ! j) [0..<nat 2])
          / real_of_int 2"
    "lookup (heap w') (metadata d) =
        Some (Dict [(''n_measurements'', PyInt 2), (''std_intensities'', PyRef s),
                    (''averaged'', PyBool True), (''mock'', PyBool True)])"
    "length (the_array (heap w') s) = 2048"
    "\<forall>j<2048. the_array (heap w') s ! j =
        sqrt (sum_list (map (\<lambda>i. (sub_intensities c1 None ''sample'' wn i ! j
                               - the_array (heap w') (intensities d) ! j)\<^sup>2) [0..<nat 2])
              / real_of_int 2)"
    "integration_time_us d = requested_time c1 None"
    by blast
  from r(3) have "the_array (heap w') (intensities d) ! 0 =
        sum_list (map (\<lambda>i. sub_intensities c1 None ''sample'' wn i ! 0) [0..<nat 2])
          / real_of_int 2"
    by simp
  then have m: "the_array (heap w') (intensities d) ! 0 = B + 250"
    unfolding two by (simp add: s0 s1)
  from r(6) have "the_array (heap w') s ! 0 =
        sqrt (sum_list (map (\<lambda>i. (sub_intensities c1 None ''sample'' wn i ! 0
                               - the_array (heap w') (intensities d) ! 0)\<^sup>2) [0..<nat 2])
              / real_of_int 2)"
    by simp
  then have "the_array (heap w') s ! 0 = sqrt (250\<^sup>2)"
    unfolding two m by (simp add: s0 s1 power2_eq_square)
  then have sd: "the_array (heap w') s ! 0 = 250" by simp
  from r(1,2,4,5) m sd r(7) show ?thesis
    using con instance_ok_c1_wn n unfolding t B_def by blast
qed



end
